theory Spec2Isabelle
  imports Complex_Main "HOL-Library.Sublist" "HOL-Library.AList" "HOL-Library.Log_Nat"
begin

section \<open>Python values and text\<close>

text \<open>
  The planner is a Python program.  Text is modelled as \<open>string\<close>, one \<open>char\<close> per
  code point, and the character classes below are those of Python's \<open>str\<close> methods and
  of the \<open>re\<close> module on the ASCII range.  The values stored in the dictionaries of the
  program are \<open>None\<close>, strings, numbers and lists of strings; a float value of a
  dictionary is known to the model by its printed form, which is all the program uses of
  one (its truth value aside).
\<close>

datatype pyval = PyNone | PyStr string | PyInt int | PyFloat string | PyList "string list"

text \<open>The exceptions the modelled code can raise; \<open>exn_str\<close> is Python's \<open>str(e)\<close>.\<close>

datatype exn = AttributeError string | TypeError string | ZeroDivisionError string
  | OverflowError string | IndexError string

fun exn_str :: "exn \<Rightarrow> string" where
  "exn_str (AttributeError m) = m"
| "exn_str (TypeError m) = m"
| "exn_str (ZeroDivisionError m) = m"
| "exn_str (OverflowError m) = m"
| "exn_str (IndexError m) = m"

definition is_digit :: "char \<Rightarrow> bool" where
  "is_digit c = (48 \<le> (of_char c :: nat) \<and> (of_char c :: nat) \<le> 57)"

definition is_upper :: "char \<Rightarrow> bool" where
  "is_upper c = (65 \<le> (of_char c :: nat) \<and> (of_char c :: nat) \<le> 90)"

definition is_lower :: "char \<Rightarrow> bool" where
  "is_lower c = (97 \<le> (of_char c :: nat) \<and> (of_char c :: nat) \<le> 122)"

definition is_alpha :: "char \<Rightarrow> bool" where
  "is_alpha c = (is_upper c \<or> is_lower c)"

text \<open>\<open>\s\<close> and \<open>str.isspace\<close>: tab, newline, vertical tab, form feed, carriage return,
  the four separators \<open>0x1c..0x1f\<close> and the space.\<close>

definition is_space :: "char \<Rightarrow> bool" where
  "is_space c = ((9 \<le> (of_char c :: nat) \<and> (of_char c :: nat) \<le> 13)
     \<or> (28 \<le> (of_char c :: nat) \<and> (of_char c :: nat) \<le> 32))"

text \<open>\<open>\w\<close>: letters, digits and the underscore.\<close>

definition is_word :: "char \<Rightarrow> bool" where
  "is_word c = (is_alpha c \<or> is_digit c \<or> (of_char c :: nat) = 95)"

definition lower_char :: "char \<Rightarrow> char" where
  "lower_char c = (if is_upper c then char_of ((of_char c :: nat) + 32) else c)"

definition upper_char :: "char \<Rightarrow> char" where
  "upper_char c = (if is_lower c then char_of ((of_char c :: nat) - 32) else c)"

text \<open>\<open>s.lower()\<close>.\<close>

definition lower :: "string \<Rightarrow> string" where
  "lower s = map lower_char s"

text \<open>\<open>a in b\<close> on strings is the test for a contiguous substring.\<close>

definition str_in :: "string \<Rightarrow> string \<Rightarrow> bool" where
  "str_in w s = sublist w s"

text \<open>\<open>int(ds)\<close> on a run of decimal digits.\<close>

definition digit_val :: "char \<Rightarrow> int" where
  "digit_val c = int (of_char c) - 48"

definition int_of_digits :: "string \<Rightarrow> int" where
  "int_of_digits ds = foldl (\<lambda>a c. 10 * a + digit_val c) 0 ds"

section \<open>Regular expressions\<close>

text \<open>
  The patterns of the program are kept as syntax trees and run by a backtracking
  matcher that returns every way a pattern can match at a position, in the order in
  which \<open>re\<close> tries them (alternatives left to right, a greedy repetition longest
  first, a lazy one shortest first).  The head of that list is the match \<open>re\<close> reports.
  A matcher state is the text before the position (reversed), the text from the
  position on, and the groups captured so far.
\<close>

datatype cls = Digit | Space | Dot

fun in_cls :: "cls \<Rightarrow> char \<Rightarrow> bool" where
  "in_cls Digit c = is_digit c"
| "in_cls Space c = is_space c"
| "in_cls Dot c = (c \<noteq> CHR 0x0A)"

datatype rx = RLit string | RCls cls | RSeq rx rx | RAlt rx rx | ROpt rx | RStar rx
  | RLazyStar rx | RGrp nat rx | RBol | REol | RWb

type_synonym mstate = "string \<times> string \<times> (nat \<times> string) list"

definition word_boundary :: "string \<Rightarrow> string \<Rightarrow> bool" where
  "word_boundary bef rest =
     ((case bef of [] \<Rightarrow> False | c # _ \<Rightarrow> is_word c)
        \<noteq> (case rest of [] \<Rightarrow> False | c # _ \<Rightarrow> is_word c))"

definition set_group :: "nat \<Rightarrow> string \<Rightarrow> mstate \<Rightarrow> mstate" where
  "set_group i start s =
     (case s of (b, rest, caps) \<Rightarrow>
        (b, rest, AList.update i (take (length start - length rest) start) caps))"

text \<open>
  The first argument bounds the iterations of a repetition; every iteration must
  consume a character, so one more than the length of the text is never reached.
\<close>

fun rx_match :: "nat \<Rightarrow> rx \<Rightarrow> mstate \<Rightarrow> mstate list" where
  "rx_match n (RLit w) (b, rest, caps) =
     (if prefix w rest then [(rev w @ b, drop (length w) rest, caps)] else [])"
| "rx_match n (RCls k) (b, rest, caps) =
     (case rest of [] \<Rightarrow> [] | c # cs \<Rightarrow> if in_cls k c then [(c # b, cs, caps)] else [])"
| "rx_match n (RSeq r1 r2) s = concat (map (rx_match n r2) (rx_match n r1 s))"
| "rx_match n (RAlt r1 r2) s = rx_match n r1 s @ rx_match n r2 s"
| "rx_match n (ROpt r) s = rx_match n r s @ [s]"
| "rx_match 0 (RStar r) s = [s]"
| "rx_match (Suc n) (RStar r) s =
     concat (map (\<lambda>s'. if length (fst (snd s')) < length (fst (snd s))
                         then rx_match n (RStar r) s' else [])
                 (rx_match (Suc n) r s)) @ [s]"
| "rx_match 0 (RLazyStar r) s = [s]"
| "rx_match (Suc n) (RLazyStar r) s =
     s # concat (map (\<lambda>s'. if length (fst (snd s')) < length (fst (snd s))
                         then rx_match n (RLazyStar r) s' else [])
                 (rx_match (Suc n) r s))"
| "rx_match n (RGrp i r) (b, rest, caps) = map (set_group i rest) (rx_match n r (b, rest, caps))"
| "rx_match n RBol (b, rest, caps) = (if b = [] then [(b, rest, caps)] else [])"
| "rx_match n REol (b, rest, caps) =
     (if rest = [] \<or> rest = [CHR 0x0A] then [(b, rest, caps)] else [])"
| "rx_match n RWb (b, rest, caps) = (if word_boundary b rest then [(b, rest, caps)] else [])"

text \<open>\<open>r+\<close> and \<open>r+?\<close>.\<close>

definition RPlus :: "rx \<Rightarrow> rx" where
  "RPlus r = RSeq r (RStar r)"

definition RLazyPlus :: "rx \<Rightarrow> rx" where
  "RLazyPlus r = RSeq r (RLazyStar r)"

text \<open>\<open>re.search\<close>: the first position, from the left, at which the pattern matches;
  the result is the groups of that match.\<close>

fun search_from :: "rx \<Rightarrow> string \<Rightarrow> string \<Rightarrow> (nat \<times> string) list option" where
  "search_from r b [] =
     (case rx_match 1 r (b, [], []) of [] \<Rightarrow> None | s # _ \<Rightarrow> Some (snd (snd s)))"
| "search_from r b (c # cs) =
     (case rx_match (Suc (Suc (length cs))) r (b, c # cs, []) of
        [] \<Rightarrow> search_from r (c # b) cs
      | s # _ \<Rightarrow> Some (snd (snd s)))"

definition re_search :: "rx \<Rightarrow> string \<Rightarrow> (nat \<times> string) list option" where
  "re_search r text = search_from r [] text"

text \<open>\<open>m.group(i)\<close>: \<open>None\<close> when the group took no part in the match.\<close>

definition group_of :: "(nat \<times> string) list \<Rightarrow> nat \<Rightarrow> string option" where
  "group_of m i = map_of m i"

section \<open>Numeric helpers\<close>

text \<open>
  \<open>extract_days(duration_str)\<close>.  The argument is the stored duration, \<open>None\<close> or a string.
  \<open>int\<close> is Python's unbounded integer conversion.  Whatever the body raises is caught and
  answered by 5; the only such case in the model is a match without its group.
\<close>

definition extract_days :: "string option \<Rightarrow> int" where
  "extract_days duration_str =
     (case duration_str of
        None \<Rightarrow> 5
      | Some d \<Rightarrow>
          if d = [] then 5
          else let duration_str = lower d in
            if str_in ''week'' duration_str then 7
            else if str_in ''month'' duration_str then 30
            else (case re_search (RGrp 1 (RPlus (RCls Digit))) duration_str of
                    Some m \<Rightarrow>
                      (case group_of m 1 of Some ds \<Rightarrow> int_of_digits ds | None \<Rightarrow> 5)
                  | None \<Rightarrow> 5))"


text \<open>\<open>extract_budget(budget_str)\<close>; \<open>re.sub(r'[^\d]', '', s)\<close> keeps the digits of \<open>s\<close>.\<close>

definition extract_budget :: "string option \<Rightarrow> int" where
  "extract_budget budget_str =
     (case budget_str of
        None \<Rightarrow> 2000
      | Some b \<Rightarrow>
          if b = [] then 2000
          else let budget_str = lower b in
            if str_in ''luxury'' budget_str \<or> str_in ''high'' budget_str then 5000
            else if str_in ''moderate'' budget_str \<or> str_in ''medium'' budget_str then 2500
            else if str_in ''budget'' budget_str \<or> str_in ''low'' budget_str
                     \<or> str_in ''cheap'' budget_str then 1000
            else let budget_num = filter is_digit budget_str in
              if budget_num \<noteq> [] then int_of_digits budget_num else 2000)"

section \<open>Dictionaries, the profile and the recommendation items\<close>

text \<open>
  A Python \<open>dict\<close> with string keys is an association list in insertion order:
  \<open>map_of\<close> is the lookup and \<open>AList.update\<close> the assignment \<open>d[k] = v\<close>.
  The profile \<open>user_info\<close> maps the slot names to \<open>None\<close> or a string; a
  recommendation item maps its keys to Python values.
\<close>

type_synonym profile = "(string \<times> string option) list"

type_synonym item = "(string \<times> pyval) list"

text \<open>\<open>user_info.get(k)\<close>: \<open>None\<close> for a missing key as for a stored \<open>None\<close>.\<close>

definition get_field :: "profile \<Rightarrow> string \<Rightarrow> string option" where
  "get_field user_info k = (case map_of user_info k of None \<Rightarrow> None | Some v \<Rightarrow> v)"

text \<open>\<open>user_info.get(k, default)\<close>: the default only for a missing key.\<close>

definition get_field_default :: "profile \<Rightarrow> string \<Rightarrow> string \<Rightarrow> string option" where
  "get_field_default user_info k dflt =
     (case map_of user_info k of None \<Rightarrow> Some dflt | Some v \<Rightarrow> v)"

text \<open>The truth value of \<open>None\<close> or a string: false for \<open>None\<close> and for the empty string.\<close>

definition truthy :: "string option \<Rightarrow> bool" where
  "truthy v = (case v of None \<Rightarrow> False | Some s \<Rightarrow> s \<noteq> [])"

definition item_get :: "item \<Rightarrow> string \<Rightarrow> pyval" where
  "item_get it k = (case map_of it k of None \<Rightarrow> PyNone | Some v \<Rightarrow> v)"

definition item_get_default :: "item \<Rightarrow> string \<Rightarrow> pyval \<Rightarrow> pyval" where
  "item_get_default it k dflt = (case map_of it k of None \<Rightarrow> dflt | Some v \<Rightarrow> v)"

fun py_truthy :: "pyval \<Rightarrow> bool" where
  "py_truthy PyNone = False"
| "py_truthy (PyStr s) = (s \<noteq> [])"
| "py_truthy (PyInt n) = (n \<noteq> 0)"
| "py_truthy (PyFloat r) = (r \<noteq> ''0.0'' \<and> r \<noteq> ''-0.0'')"
| "py_truthy (PyList xs) = (xs \<noteq> [])"

text \<open>\<open>v.lower()\<close> on a Python value: only a string has the method.\<close>

definition quoted :: "string \<Rightarrow> string" where
  "quoted s = [CHR 0x27] @ s @ [CHR 0x27]"

definition no_attribute :: "string \<Rightarrow> string \<Rightarrow> exn" where
  "no_attribute ty a = AttributeError (quoted ty @ '' object has no attribute '' @ quoted a)"

fun py_lower :: "pyval \<Rightarrow> exn + string" where
  "py_lower (PyStr s) = Inr (lower s)"
| "py_lower PyNone = Inl (no_attribute ''NoneType'' ''lower'')"
| "py_lower (PyInt n) = Inl (no_attribute ''int'' ''lower'')"
| "py_lower (PyFloat r) = Inl (no_attribute ''float'' ''lower'')"
| "py_lower (PyList xs) = Inl (no_attribute ''list'' ''lower'')"

section \<open>Splitting and joining\<close>

text \<open>\<open>s.split(sep)\<close> for a separator that is not empty.\<close>

function split_on :: "string \<Rightarrow> string \<Rightarrow> string \<Rightarrow> string list" where
  "split_on sep acc [] = [rev acc]"
| "split_on sep acc (c # cs) =
     (if sep \<noteq> [] \<and> prefix sep (c # cs)
      then rev acc # split_on sep [] (drop (length sep) (c # cs))
      else split_on sep (c # acc) cs)"
  by pat_completeness auto
termination
  by (relation "measure (\<lambda>(sep, acc, s). length s)") auto

definition split :: "string \<Rightarrow> string \<Rightarrow> string list" where
  "split sep s = split_on sep [] s"

text \<open>\<open>sep.join(xs)\<close>.\<close>

fun join :: "string \<Rightarrow> string list \<Rightarrow> string" where
  "join sep [] = []"
| "join sep [x] = x"
| "join sep (x # y # ys) = x @ sep @ join sep (y # ys)"

text \<open>\<open>s.replace(old, new)\<close> for \<open>old\<close> not empty: every occurrence of \<open>old\<close>, found from
  the left without overlap, is where \<open>split\<close> cuts.\<close>

definition replace :: "string \<Rightarrow> string \<Rightarrow> string \<Rightarrow> string" where
  "replace old new s = join new (split old s)"

text \<open>\<open>s.strip()\<close> and \<open>s.title()\<close>.\<close>

definition strip :: "string \<Rightarrow> string" where
  "strip s = rev (dropWhile is_space (rev (dropWhile is_space s)))"

fun title_from :: "bool \<Rightarrow> string \<Rightarrow> string" where
  "title_from prev [] = []"
| "title_from prev (c # cs) =
     (if is_alpha c then (if prev then lower_char c else upper_char c) # title_from True cs
      else c # title_from False cs)"

definition title :: "string \<Rightarrow> string" where
  "title s = title_from False s"

section \<open>The dialogue state machine: the next question\<close>

definition required_fields :: "string list" where
  "required_fields = [''destination'', ''duration'', ''budget'', ''purpose'', ''interests'',
     ''dietary_restrictions'', ''mobility_concerns'', ''accommodation_preference'']"

text \<open>The loop of \<open>get_next_question\<close> over the fields that are left.\<close>

fun next_question_from :: "profile \<Rightarrow> string list \<Rightarrow> string" where
  "next_question_from user_info [] = ''confirm_generate''"
| "next_question_from user_info (field # fields) =
     (if \<not> truthy (get_field user_info field) then ''get_'' @ field
      else next_question_from user_info fields)"

definition get_next_question :: "profile \<Rightarrow> string" where
  "get_next_question user_info = next_question_from user_info required_fields"

section \<open>The preference filter\<close>

text \<open>
  One round of the loop of \<open>filter_by_preferences\<close>: whether the item is appended to
  \<open>filtered\<close>.  The three tests are tried in the order of the source; \<open>.lower()\<close> on a
  value that is not a string raises.
\<close>

definition accommodation_keeps :: "profile \<Rightarrow> item \<Rightarrow> exn + bool" where
  "accommodation_keeps preferences it =
     (case (map_of it ''type'', get_field preferences ''accommodation_preference'') of
        (Some v, Some p) \<Rightarrow>
          if p \<noteq> []
          then (case py_lower v of Inl e \<Rightarrow> Inl e | Inr t \<Rightarrow> Inr (str_in (lower p) t))
          else Inr False
      | _ \<Rightarrow> Inr False)"

definition dietary_keeps :: "profile \<Rightarrow> item \<Rightarrow> exn + bool" where
  "dietary_keeps preferences it =
     (case (map_of it ''dietary'', get_field preferences ''dietary_restrictions'') of
        (Some v, Some p) \<Rightarrow>
          if p \<noteq> []
          then (case py_lower v of Inl e \<Rightarrow> Inl e | Inr d \<Rightarrow> Inr (str_in (lower p) d))
          else Inr False
      | _ \<Rightarrow> Inr False)"

definition interest_keeps :: "string list \<Rightarrow> item \<Rightarrow> exn + bool" where
  "interest_keeps interests it =
     (if interests \<noteq> []
      then (case py_lower (item_get_default it ''name'' (PyStr [])) of
              Inl e \<Rightarrow> Inl e
            | Inr item_name \<Rightarrow>
                (case py_lower (item_get_default it ''type'' (PyStr [])) of
                   Inl e \<Rightarrow> Inl e
                 | Inr item_type \<Rightarrow>
                     Inr (list_ex (\<lambda>interest. str_in interest item_name \<or> str_in interest item_type)
                            interests)))
      else Inr False)"

definition keeps :: "string list \<Rightarrow> profile \<Rightarrow> item \<Rightarrow> exn + bool" where
  "keeps interests preferences it =
     (case interest_keeps interests it of
        Inl e \<Rightarrow> Inl e
      | Inr True \<Rightarrow> Inr True
      | Inr False \<Rightarrow>
          (case dietary_keeps preferences it of
             Inl e \<Rightarrow> Inl e
           | Inr True \<Rightarrow> Inr True
           | Inr False \<Rightarrow> accommodation_keeps preferences it))"

fun filter_loop :: "string list \<Rightarrow> profile \<Rightarrow> item list \<Rightarrow> exn + item list" where
  "filter_loop interests preferences [] = Inr []"
| "filter_loop interests preferences (it # items) =
     (case keeps interests preferences it of
        Inl e \<Rightarrow> Inl e
      | Inr k \<Rightarrow>
          (case filter_loop interests preferences items of
             Inl e \<Rightarrow> Inl e
           | Inr filtered \<Rightarrow> Inr (if k then it # filtered else filtered)))"

definition interests_of :: "profile \<Rightarrow> string list" where
  "interests_of preferences =
     (case get_field preferences ''interests'' of
        Some i \<Rightarrow> if i \<noteq> [] then split '', '' (lower i) else []
      | None \<Rightarrow> [])"

definition filter_by_preferences :: "item list \<Rightarrow> profile \<Rightarrow> exn + item list" where
  "filter_by_preferences items preferences =
     (if preferences = [] \<or> items = [] then Inr items
      else (case filter_loop (interests_of preferences) preferences items of
              Inl e \<Rightarrow> Inl e
            | Inr filtered \<Rightarrow> Inr (if filtered \<noteq> [] then filtered else take 5 items)))"


section \<open>Clarifying questions for vague answers\<close>

definition apostrophe :: string where
  "apostrophe = [CHR 0x27]"

definition refine_budget :: "string \<Rightarrow> string option" where
  "refine_budget text_lower =
     (if str_in ''moderate'' text_lower \<or> str_in ''medium'' text_lower
      then Some (''For a moderate budget, I'' @ apostrophe
                   @ ''d suggest $150-$200 per day. Does this range work for you?'')
      else if str_in ''low'' text_lower \<or> str_in ''cheap'' text_lower \<or> str_in ''budget'' text_lower
      then Some (''For a budget trip, I'' @ apostrophe
                   @ ''d suggest $50-$100 per day. Does this range work for you?'')
      else if str_in ''high'' text_lower \<or> str_in ''luxury'' text_lower
                \<or> str_in ''expensive'' text_lower
      then Some (''For a luxury trip, I'' @ apostrophe
                   @ ''d suggest $300+ per day. Does this range work for you?'')
      else if str_in ''some'' text_lower \<or> str_in ''enough'' text_lower
      then Some ''Would you like me to suggest a budget range based on your destination?''
      else None)"

definition refine_duration :: "string \<Rightarrow> string option" where
  "refine_duration text_lower =
     (if str_in ''week'' text_lower
      then Some ''Would you like me to plan for 7 days (1 week)?''
      else if str_in ''month'' text_lower
      then Some ''Would you like me to plan for 30 days (1 month)?''
      else if str_in ''long'' text_lower \<or> str_in ''extended'' text_lower
      then Some ''Would you like me to suggest an ideal duration for your destination?''
      else None)"

definition refine_interests :: "string \<Rightarrow> string option" where
  "refine_interests text_lower =
     (if str_in ''everything'' text_lower \<or> str_in ''all'' text_lower
      then Some (''I'' @ apostrophe @ ''ll include a mix of activities. Any particular favorites ''
                   @ ''among these: cultural, adventure, food, relaxation?'')
      else if str_in ''some'' text_lower \<or> str_in ''few'' text_lower
      then Some (''Would you like me to suggest a balanced mix of activities, ''
                   @ ''or focus on specific types?'')
      else if str_in ''not sure'' text_lower
                \<or> str_in (''don'' @ apostrophe @ ''t know'') text_lower
      then Some ''I can suggest popular activities for your destination. Would you like that?''
      else None)"

definition refine_accommodation :: "string \<Rightarrow> string option" where
  "refine_accommodation text_lower =
     (if str_in ''surprise'' text_lower \<or> str_in ''you choose'' text_lower
      then Some ''I can select a highly-rated option that fits your budget. Is that okay?''
      else if str_in ''not sure'' text_lower
                \<or> str_in (''don'' @ apostrophe @ ''t know'') text_lower
      then Some (''Would you like me to suggest the best accommodation types ''
                   @ ''for your destination?'')
      else None)"

text \<open>\<open>refine_vague_input(text, field)\<close>: the four blocks of the source in their order; a
  block that finds nothing falls through to the next.\<close>

definition refine_vague_input :: "string \<Rightarrow> string \<Rightarrow> string option" where
  "refine_vague_input text field =
     (let text_lower = lower text in
      case (if field = ''budget'' then refine_budget text_lower else None) of
        Some q \<Rightarrow> Some q
      | None \<Rightarrow>
      (case (if field = ''duration'' then refine_duration text_lower else None) of
        Some q \<Rightarrow> Some q
      | None \<Rightarrow>
      (case (if field = ''interests'' then refine_interests text_lower else None) of
        Some q \<Rightarrow> Some q
      | None \<Rightarrow>
      (if field = ''accommodation'' then refine_accommodation text_lower else None))))"

section \<open>The extractor\<close>

text \<open>Helpers to write the patterns: a sequence, a choice, and a word between \<open>\b\<close>.\<close>

fun seqs :: "rx list \<Rightarrow> rx" where
  "seqs [] = RLit []"
| "seqs [r] = r"
| "seqs (r # rs) = RSeq r (seqs rs)"

fun alts :: "rx list \<Rightarrow> rx" where
  "alts [] = RLit []"
| "alts [r] = r"
| "alts (r # rs) = RAlt r (alts rs)"

definition word_rx :: "string \<Rightarrow> rx" where
  "word_rx w = seqs [RWb, RLit w, RWb]"

text \<open>
  \<^verbatim>\<open>(?:going to|visiting|travel(?:ing)? to|destination is?|in|trip to|heading to|visit|go to)\<close>
  \<^verbatim>\<open>\s*(.+?)(?:\s|,|\.|$)|^(paris|rome|london|new york|tokyo)\b\<close>
\<close>

definition destination_rx :: rx where
  "destination_rx =
     RAlt
       (seqs [alts [RLit ''going to'', RLit ''visiting'',
                    seqs [RLit ''travel'', ROpt (RLit ''ing''), RLit '' to''],
                    seqs [RLit ''destination i'', ROpt (RLit ''s'')],
                    RLit ''in'', RLit ''trip to'', RLit ''heading to'', RLit ''visit'',
                    RLit ''go to''],
              RStar (RCls Space),
              RGrp 1 (RLazyPlus (RCls Dot)),
              alts [RCls Space, RLit '','', RLit ''.'', REol]])
       (seqs [RBol,
              RGrp 2 (alts [RLit ''paris'', RLit ''rome'', RLit ''london'', RLit ''new york'',
                            RLit ''tokyo'']),
              RWb])"

text \<open>
  \<^verbatim>\<open>(\d+)\s?(?:day|week|month)s?\b|for\s(\d+)\s(?:day|week|month)s?\b|(\d+)-day\<close>
\<close>

definition unit_rx :: rx where
  "unit_rx = alts [RLit ''day'', RLit ''week'', RLit ''month'']"

definition duration_rx :: rx where
  "duration_rx =
     alts [seqs [RGrp 1 (RPlus (RCls Digit)), ROpt (RCls Space), unit_rx, ROpt (RLit ''s''), RWb],
           seqs [RLit ''for'', RCls Space, RGrp 2 (RPlus (RCls Digit)), RCls Space, unit_rx,
                 ROpt (RLit ''s''), RWb],
           seqs [RGrp 3 (RPlus (RCls Digit)), RLit ''-day'']]"

text \<open>
  \<^verbatim>\<open>(?:budget|price|cost)\s?(?:of|is|around)?\s?(\$?\d+(?:,\d{3})*(?:\.\d{2})?)(?:\s|$)\<close>
  \<^verbatim>\<open>|(\d+)\s?(?:dollars|USD|EUR)|\$(\d+)|(low|moderate|medium|high|luxury)\s?budget\<close>
\<close>

definition budget_rx :: rx where
  "budget_rx =
     alts [seqs [alts [RLit ''budget'', RLit ''price'', RLit ''cost''],
                 ROpt (RCls Space),
                 ROpt (alts [RLit ''of'', RLit ''is'', RLit ''around'']),
                 ROpt (RCls Space),
                 RGrp 1 (seqs [ROpt (RLit ''$''), RPlus (RCls Digit),
                               RStar (seqs [RLit '','', RCls Digit, RCls Digit, RCls Digit]),
                               ROpt (seqs [RLit ''.'', RCls Digit, RCls Digit])]),
                 RAlt (RCls Space) REol],
           seqs [RGrp 2 (RPlus (RCls Digit)), ROpt (RCls Space),
                 alts [RLit ''dollars'', RLit ''USD'', RLit ''EUR'']],
           seqs [RLit ''$'', RGrp 3 (RPlus (RCls Digit))],
           seqs [RGrp 4 (alts [RLit ''low'', RLit ''moderate'', RLit ''medium'', RLit ''high'',
                               RLit ''luxury'']),
                 ROpt (RCls Space), RLit ''budget'']]"

text \<open>The keyword tables, in the order in which the source writes (and so iterates) them.\<close>

definition purpose_map :: "(rx \<times> string) list" where
  "purpose_map =
     [(word_rx ''vacation'', ''Leisure''), (word_rx ''holiday'', ''Leisure''),
      (word_rx ''business'', ''Business''), (word_rx ''work'', ''Business''),
      (word_rx ''honeymoon'', ''Honeymoon''), (word_rx ''anniversary'', ''Anniversary''),
      (word_rx ''family'', ''Family''), (word_rx ''solo'', ''Solo''),
      (word_rx ''couple'', ''Romantic''), (word_rx ''friends'', ''Friends'')]"

definition interest_map :: "(rx \<times> string) list" where
  "interest_map =
     [(word_rx ''art'', ''Art''), (word_rx ''museum'', ''Art''),
      (word_rx ''history'', ''History''), (word_rx ''historical'', ''History''),
      (word_rx ''food'', ''Food''), (word_rx ''cuisine'', ''Food''),
      (word_rx ''eating'', ''Food''), (word_rx ''restaurant'', ''Food''),
      (word_rx ''adventure'', ''Adventure''), (word_rx ''hiking'', ''Adventure''),
      (word_rx ''outdoor'', ''Adventure''), (word_rx ''relax'', ''Relaxation''),
      (word_rx ''spa'', ''Relaxation''), (word_rx ''beach'', ''Relaxation''),
      (word_rx ''shop'', ''Shopping''), (word_rx ''nature'', ''Nature''),
      (word_rx ''park'', ''Nature''), (word_rx ''photography'', ''Photography''),
      (word_rx ''architecture'', ''Architecture'')]"

definition space_or_hyphen :: rx where
  "space_or_hyphen = RAlt (RCls Space) (RLit ''-'')"

definition dietary_map :: "(rx \<times> string) list" where
  "dietary_map =
     [(word_rx ''vegetarian'', ''Vegetarian''), (word_rx ''vegan'', ''Vegan''),
      (seqs [RWb, RLit ''gluten'', ROpt space_or_hyphen, RLit ''free'', RWb], ''Gluten-free''),
      (word_rx ''kosher'', ''Kosher''), (word_rx ''halal'', ''Halal''),
      (seqs [RWb, RLit ''lactose'', ROpt space_or_hyphen, RLit ''free'', RWb], ''Dairy-free''),
      (seqs [RWb, RLit ''nut'', ROpt space_or_hyphen, RLit ''free'', RWb], ''Nut-free''),
      (word_rx ''pescatarian'', ''Pescatarian'')]"

definition mobility_map :: "(rx \<times> string) list" where
  "mobility_map =
     [(word_rx ''mobility'', ''Limited mobility''),
      (word_rx ''wheelchair'', ''Wheelchair accessible''),
      (word_rx ''disability'', ''Accessibility needed''),
      (seqs [RWb, RLit ''walking'', RPlus (RCls Space), RLit ''difficult'', RWb],
         ''Limited walking''),
      (word_rx ''accessibility'', ''Accessibility needed''),
      (seqs [RWb, RLit ''physical'', RPlus (RCls Space), RLit ''limitation'', RWb],
         ''Limited mobility'')]"

definition accom_map :: "(rx \<times> string) list" where
  "accom_map =
     [(word_rx ''luxur'', ''Luxury''), (word_rx ''boutique'', ''Boutique''),
      (word_rx ''budget'', ''Budget''), (word_rx ''hostel'', ''Hostel''),
      (word_rx ''airbnb'', ''Vacation rental''), (word_rx ''central'', ''Central location''),
      (word_rx ''quiet'', ''Quiet area''), (word_rx ''resort'', ''Resort''),
      (word_rx ''apartment'', ''Apartment''), (word_rx ''guesthouse'', ''Guesthouse''),
      (word_rx ''b&b'', ''Bed and breakfast'')]"

text \<open>A loop that stops at the first pattern found, and the one that collects them all.\<close>

fun first_label :: "(rx \<times> string) list \<Rightarrow> string \<Rightarrow> string option" where
  "first_label [] text_lower = None"
| "first_label ((pattern, label) # rest) text_lower =
     (if re_search pattern text_lower \<noteq> None then Some label else first_label rest text_lower)"

definition all_labels :: "(rx \<times> string) list \<Rightarrow> string \<Rightarrow> string list" where
  "all_labels table text_lower =
     map snd (filter (\<lambda>(pattern, label). re_search pattern text_lower \<noteq> None) table)"

text \<open>\<open>a or b\<close> on captured groups: the first that is neither \<open>None\<close> nor empty.\<close>

fun first_truthy :: "string option list \<Rightarrow> string option" where
  "first_truthy [] = None"
| "first_truthy (g # gs) = (if truthy g then g else first_truthy gs)"

definition extract_destination :: "string \<Rightarrow> string option" where
  "extract_destination text_lower =
     (case re_search destination_rx text_lower of
        None \<Rightarrow> None
      | Some m \<Rightarrow>
          (case first_truthy [group_of m 1, group_of m 2] of
             None \<Rightarrow> None
           | Some dest \<Rightarrow> Some (title (strip (filter (\<lambda>c. is_alpha c \<or> is_space c) dest)))))"

definition extract_duration :: "string \<Rightarrow> string option" where
  "extract_duration text_lower =
     (case re_search duration_rx text_lower of
        None \<Rightarrow> None
      | Some m \<Rightarrow>
          (case first_truthy [group_of m 1, group_of m 2, group_of m 3] of
             None \<Rightarrow> None
           | Some duration \<Rightarrow> Some (duration @ '' days'')))"

definition extract_budget_text :: "string \<Rightarrow> string option" where
  "extract_budget_text text_lower =
     (case re_search budget_rx text_lower of
        None \<Rightarrow> None
      | Some m \<Rightarrow> first_truthy [group_of m 1, group_of m 2, group_of m 3, group_of m 4])"

text \<open>
  \<open>extract_travel_info(text)\<close> for a text that is a string; the result is the dictionary
  \<open>info\<close>, a key for each field found.  \<open>set_order\<close> stands for the order in which Python
  iterates over \<open>set(interests)\<close>, which the language leaves open: it is given the labels
  found and returns the distinct ones in some order.
\<close>

definition add_found :: "string \<Rightarrow> string option \<Rightarrow> (string \<times> string) list \<Rightarrow> (string \<times> string) list" where
  "add_found k v info = (case v of None \<Rightarrow> info | Some x \<Rightarrow> AList.update k x info)"

definition extract_travel_info :: "(string list \<Rightarrow> string list) \<Rightarrow> string \<Rightarrow> (string \<times> string) list" where
  "extract_travel_info set_order text =
     (if text = [] then []
      else let text_lower = lower text;
               interests = all_labels interest_map text_lower
           in add_found ''accommodation_preference'' (first_label accom_map text_lower)
             (add_found ''mobility_concerns'' (first_label mobility_map text_lower)
             (add_found ''dietary_restrictions'' (first_label dietary_map text_lower)
             (add_found ''interests''
                (if interests \<noteq> [] then Some (join '', '' (set_order interests)) else None)
             (add_found ''purpose'' (first_label purpose_map text_lower)
             (add_found ''budget'' (extract_budget_text text_lower)
             (add_found ''duration'' (extract_duration text_lower)
             (add_found ''destination'' (extract_destination text_lower) []))))))))"


section \<open>Floating point\<close>

text \<open>
  The budget lines are computed in binary floating point.  A double is modelled by the
  rational number it denotes; \<open>to_double\<close> rounds a rational that is not negative to the
  nearest double, ties to even (the rounding of a literal such as \<open>0.4\<close>, of \<open>float(n)\<close>
  and of every arithmetic operation).  \<open>binade x\<close> is the exponent of the leading bit of
  \<open>x\<close>; a double keeps 53 bits from there.  Results below the normal range are not
  modelled: the program truncates them to 0 either way.
\<close>

definition round_half_even :: "rat \<Rightarrow> int" where
  "round_half_even x =
     (let f = \<lfloor>x\<rfloor>; d = x - of_int f
      in if d < 1 / 2 then f else if 1 / 2 < d then f + 1 else if even f then f else f + 1)"

definition binade :: "rat \<Rightarrow> int" where
  "binade x = (if 1 \<le> x then bitlen \<lfloor>x\<rfloor> - 1 else - bitlen (\<lceil>1 / x\<rceil> - 1))"

definition to_double :: "rat \<Rightarrow> rat" where
  "to_double x =
     (if x = 0 then 0
      else let e = binade x - 52 in of_int (round_half_even (x / 2 powi e)) * 2 powi e)"

text \<open>\<open>float(n)\<close> for an integer that is not negative, as \<open>n * 0.4\<close> and \<open>x / n\<close> convert
  their integer operand: a value that rounds beyond the largest double raises.\<close>

definition float_of_int :: "int \<Rightarrow> exn + rat" where
  "float_of_int n =
     (if to_double (of_int n) < 2 ^ 1024 then Inr (to_double (of_int n))
      else Inl (OverflowError ''int too large to convert to float''))"

text \<open>The monadic bind of results: the first exception ends the computation.\<close>

definition bind_exn :: "exn + 'a \<Rightarrow> ('a \<Rightarrow> exn + 'b) \<Rightarrow> exn + 'b" where
  "bind_exn m f = (case m of Inl e \<Rightarrow> Inl e | Inr x \<Rightarrow> f x)"

text \<open>\<open>budget_num * p\<close> for a literal \<open>p\<close>, and \<open>x / days\<close>.\<close>

definition times_literal :: "int \<Rightarrow> rat \<Rightarrow> exn + rat" where
  "times_literal budget_num p =
     bind_exn (float_of_int budget_num) (\<lambda>b. Inr (to_double (b * to_double p)))"

definition per_day :: "rat \<Rightarrow> int \<Rightarrow> exn + rat" where
  "per_day x days =
     bind_exn (float_of_int days)
       (\<lambda>d. if d = 0 then Inl (ZeroDivisionError ''float division by zero'')
             else Inr (to_double (x / d)))"

text \<open>\<open>int(budget_num * p)\<close> and \<open>int(budget_num * p / days)\<close>: \<open>int\<close> truncates.\<close>

definition share :: "int \<Rightarrow> rat \<Rightarrow> exn + int" where
  "share budget_num p = bind_exn (times_literal budget_num p) (\<lambda>x. Inr \<lfloor>x\<rfloor>)"

definition daily_rate :: "int \<Rightarrow> rat \<Rightarrow> int \<Rightarrow> exn + int" where
  "daily_rate budget_num p days =
     bind_exn (times_literal budget_num p)
       (\<lambda>x. bind_exn (per_day x days) (\<lambda>y. Inr \<lfloor>y\<rfloor>))"

section \<open>Printing values\<close>

function str_of_nat :: "nat \<Rightarrow> string" where
  "str_of_nat n =
     (if n < 10 then [char_of (48 + n)] else str_of_nat (n div 10) @ [char_of (48 + n mod 10)])"
  by pat_completeness auto
termination
  by (relation "measure id") auto

definition str_of_int :: "int \<Rightarrow> string" where
  "str_of_int i = (if i < 0 then ''-'' @ str_of_nat (nat (- i)) else str_of_nat (nat i))"

text \<open>The format \<open>{:,}\<close>: a comma before every group of three digits, counted from the
  right.\<close>

fun commas_rev :: "string \<Rightarrow> string" where
  "commas_rev (a # b # c # d # rest) = a # b # c # CHR '','' # commas_rev (d # rest)"
| "commas_rev xs = xs"

definition fmt_commas :: "int \<Rightarrow> string" where
  "fmt_commas i =
     (if i < 0 then ''-'' @ rev (commas_rev (rev (str_of_nat (nat (- i)))))
      else rev (commas_rev (rev (str_of_nat (nat i)))))"

text \<open>\<open>str(v)\<close>, as an f-string prints a value.\<close>

fun py_str :: "pyval \<Rightarrow> string" where
  "py_str PyNone = ''None''"
| "py_str (PyStr s) = s"
| "py_str (PyInt n) = str_of_int n"
| "py_str (PyFloat r) = r"
| "py_str (PyList xs) = ''['' @ join '', '' (map quoted xs) @ '']''"

definition opt_str :: "string option \<Rightarrow> string" where
  "opt_str v = (case v of None \<Rightarrow> ''None'' | Some s \<Rightarrow> s)"


section \<open>The environment of a generation\<close>

text \<open>
  The aggregated data of a destination, as \<open>get_destination_info\<close> returns it, and what
  the composer takes from outside the program: the providers behind
  \<open>get_destination_info\<close> (which catches their failures itself) and whether they fell back
  to the web search, the calendar (the date of the n-th day of the trip, already printed),
  the weather provider, and the random generator (\<open>pick day slot n\<close> is the index drawn
  by the call of \<open>random.choice\<close> in that slot of that day, on a list of \<open>n\<close> elements).
\<close>

record dest_info =
  description :: string
  must_see :: "pyval list"
  activities :: "item list"
  dining :: "item list"
  accommodation :: "item list"
  transport :: "(string \<times> string) list option"

record env =
  set_order :: "string list \<Rightarrow> string list"
  destination_info :: "string \<Rightarrow> profile \<Rightarrow> dest_info"
  web_search_used :: "string \<Rightarrow> profile \<Rightarrow> bool"
  date_str :: "nat \<Rightarrow> string"
  weather_forecast :: "string \<Rightarrow> nat \<Rightarrow> item option"
  pick :: "nat \<Rightarrow> nat \<Rightarrow> nat \<Rightarrow> nat"

text \<open>
  \<open>get_destination_info(destination, user_info)\<close>.  For a destination that is \<open>None\<close> the
  body raises at \<open>destination.lower()\<close> and so does its handler, at the same call; for a
  string every failure is caught inside.
\<close>

definition get_destination_info :: "env \<Rightarrow> string option \<Rightarrow> profile \<Rightarrow> exn + dest_info" where
  "get_destination_info env destination user_info =
     (case destination of
        None \<Rightarrow> Inl (no_attribute ''NoneType'' ''lower'')
      | Some d \<Rightarrow> Inr (destination_info env d user_info))"

text \<open>\<open>random.choice(xs)\<close>.\<close>

definition choice :: "env \<Rightarrow> nat \<Rightarrow> nat \<Rightarrow> 'a list \<Rightarrow> exn + 'a" where
  "choice env day slot xs =
     (if xs = [] then Inl (IndexError ''Cannot choose from an empty sequence'')
      else Inr (xs ! (pick env day slot (length xs) mod length xs)))"

section \<open>The itinerary composer\<close>

text \<open>The symbols of the templates that are not ASCII, as their UTF-8 bytes.\<close>

definition nl :: string where "nl = [CHR 0x0A]"
definition airplane :: string where
  "airplane = [CHR 0xE2, CHR 0x9C, CHR 0x88, CHR 0xEF, CHR 0xB8, CHR 0x8F]"
definition memo :: string where "memo = [CHR 0xF0, CHR 0x9F, CHR 0x93, CHR 0x9D]"
definition glowing_star :: string where "glowing_star = [CHR 0xF0, CHR 0x9F, CHR 0x8C, CHR 0x9F]"
definition masks :: string where "masks = [CHR 0xF0, CHR 0x9F, CHR 0x8E, CHR 0xAD]"
definition star :: string where "star = [CHR 0xE2, CHR 0xAD, CHR 0x90]"
definition pin :: string where "pin = [CHR 0xF0, CHR 0x9F, CHR 0x93, CHR 0x8D]"
definition plate :: string where
  "plate = [CHR 0xF0, CHR 0x9F, CHR 0x8D, CHR 0xBD, CHR 0xEF, CHR 0xB8, CHR 0x8F]"
definition hotel :: string where "hotel = [CHR 0xF0, CHR 0x9F, CHR 0x8F, CHR 0xA8]"
definition calendar :: string where "calendar = [CHR 0xF0, CHR 0x9F, CHR 0x93, CHR 0x85]"
definition degree :: string where "degree = [CHR 0xC2, CHR 0xB0]"
definition sunrise :: string where "sunrise = [CHR 0xF0, CHR 0x9F, CHR 0x8C, CHR 0x85]"
definition sun_cloud :: string where "sun_cloud = [CHR 0xE2, CHR 0x9B, CHR 0x85]"
definition sunset :: string where "sunset = [CHR 0xF0, CHR 0x9F, CHR 0x8C, CHR 0x87]"
definition money_bag :: string where "money_bag = [CHR 0xF0, CHR 0x9F, CHR 0x92, CHR 0xB0]"
definition bus :: string where "bus = [CHR 0xF0, CHR 0x9F, CHR 0x9A, CHR 0x8D]"
definition warning_sign :: string where
  "warning_sign = [CHR 0xE2, CHR 0x9A, CHR 0xA0, CHR 0xEF, CHR 0xB8, CHR 0x8F]"

text \<open>\<open>'$' * v\<close>: the repetition of a string takes an integer.\<close>

definition not_an_int :: "string \<Rightarrow> exn" where
  "not_an_int ty =
     TypeError (''can'' @ apostrophe @ ''t multiply sequence by non-int of type '' @ quoted ty)"

fun dollars :: "pyval \<Rightarrow> exn + string" where
  "dollars (PyInt n) = Inr (replicate (nat n) CHR ''$'')"
| "dollars PyNone = Inl (not_an_int ''NoneType'')"
| "dollars (PyStr s) = Inl (not_an_int ''str'')"
| "dollars (PyFloat r) = Inl (not_an_int ''float'')"
| "dollars (PyList xs) = Inl (not_an_int ''list'')"

text \<open>One line of a list of activities, restaurants or lodgings.\<close>

definition render_item :: "item \<Rightarrow> exn + string" where
  "render_item it =
     bind_exn (if py_truthy (item_get it ''price_level'')
               then bind_exn (dollars (item_get_default it ''price_level'' (PyInt 1)))
                      (\<lambda>d. Inr ('' '' @ d))
               else Inr [])
       (\<lambda>price.
          Inr (''- **'' @ py_str (item_get it ''name'') @ ''**''
               @ (if py_truthy (item_get it ''rating'')
                  then '' '' @ star @ '' '' @ py_str (item_get it ''rating'') else [])
               @ price
               @ (if py_truthy (item_get it ''location'')
                  then nl @ ''  '' @ pin @ '' '' @ py_str (item_get it ''location'') else [])
               @ nl))"

fun render_items :: "item list \<Rightarrow> exn + string" where
  "render_items [] = Inr []"
| "render_items (it # items) =
     bind_exn (render_item it) (\<lambda>a. bind_exn (render_items items) (\<lambda>b. Inr (a @ b)))"

definition render_section :: "string \<Rightarrow> nat \<Rightarrow> item list \<Rightarrow> exn + string" where
  "render_section heading limit items =
     (if items \<noteq> []
      then bind_exn (render_items (take limit items)) (\<lambda>r. Inr (heading @ r))
      else Inr [])"

text \<open>\<open>for i, attraction in enumerate(xs, 1)\<close>.\<close>

fun numbered :: "nat \<Rightarrow> pyval list \<Rightarrow> string" where
  "numbered i [] = []"
| "numbered i (a # as) = str_of_nat i @ ''. '' @ py_str a @ nl @ numbered (Suc i) as"

text \<open>\<open>tag in act.get('tags', [])\<close> and the list comprehension over the activities.\<close>

definition not_iterable :: "string \<Rightarrow> exn" where
  "not_iterable ty = TypeError (''argument of type '' @ quoted ty @ '' is not iterable'')"

fun has_tag :: "string \<Rightarrow> pyval \<Rightarrow> exn + bool" where
  "has_tag tag (PyList xs) = Inr (tag \<in> set xs)"
| "has_tag tag (PyStr s) = Inr (str_in tag s)"
| "has_tag tag PyNone = Inl (not_iterable ''NoneType'')"
| "has_tag tag (PyInt n) = Inl (not_iterable ''int'')"
| "has_tag tag (PyFloat r) = Inl (not_iterable ''float'')"

fun tagged :: "string \<Rightarrow> item list \<Rightarrow> exn + item list" where
  "tagged tag [] = Inr []"
| "tagged tag (act # acts) =
     bind_exn (has_tag tag (item_get_default act ''tags'' (PyList [])))
       (\<lambda>k. bind_exn (tagged tag acts) (\<lambda>r. Inr (if k then act # r else r)))"

definition names_or :: "item list \<Rightarrow> string \<Rightarrow> pyval list" where
  "names_or acts dflt =
     (let names = map (\<lambda>act. item_get act ''name'') (take 3 acts)
      in if names \<noteq> [] then names else [PyStr dflt])"

definition weather_text :: "item option \<Rightarrow> string" where
  "weather_text weather =
     (case weather of
        None \<Rightarrow> []
      | Some w \<Rightarrow>
          if w = [] then []
          else '' <img src='' @ apostrophe @ ''https://openweathermap.org/img/wn/''
               @ py_str (item_get_default w ''icon'' (PyStr ''01d'')) @ ''@2x.png'' @ apostrophe
               @ '' width='' @ quoted ''30'' @ ''> ''
               @ py_str (item_get_default w ''temp'' (PyStr ''?'')) @ degree @ ''C, ''
               @ py_str (item_get_default w ''conditions'' (PyStr [])))"

text \<open>One round of the loop over the days.\<close>

definition day_block :: "env \<Rightarrow> string \<Rightarrow> item list \<Rightarrow> item list \<Rightarrow> nat \<Rightarrow> exn + string" where
  "day_block env destination acts dins day =
     bind_exn (tagged ''morning'' acts) (\<lambda>m.
     bind_exn (choice env day 0 (names_or (if m \<noteq> [] then m else acts) ''Explore the city''))
       (\<lambda>morning_choice.
     bind_exn (tagged ''afternoon'' acts) (\<lambda>a.
     bind_exn (choice env day 1
                 (names_or (if a \<noteq> [] then a else acts) ''Visit local attractions''))
       (\<lambda>afternoon_choice.
     bind_exn (if dins \<noteq> []
               then bind_exn (choice env day 2 (map (\<lambda>d. item_get d ''name'') (take 3 dins)))
                      (\<lambda>d. Inr [''Dinner at '' @ py_str d])
               else Inr [])
       (\<lambda>dinner.
     bind_exn (choice env day 3
                 (dinner @ [''Night walking tour'', ''Cultural performance'',
                            ''Relax at your accommodation'']))
       (\<lambda>evening_choice.
          Inr (nl @ ''**Day '' @ str_of_nat day @ '': '' @ date_str env day @ ''**''
               @ weather_text (weather_forecast env destination day) @ nl
               @ sunrise @ '' Morning: '' @ py_str morning_choice @ nl
               @ sun_cloud @ '' Afternoon: '' @ py_str afternoon_choice @ nl
               @ sunset @ '' Evening: '' @ evening_choice @ nl)))))))"

fun schedule :: "env \<Rightarrow> string \<Rightarrow> item list \<Rightarrow> item list \<Rightarrow> nat list \<Rightarrow> exn + string" where
  "schedule env destination acts dins [] = Inr []"
| "schedule env destination acts dins (day # days) =
     bind_exn (day_block env destination acts dins day)
       (\<lambda>a. bind_exn (schedule env destination acts dins days) (\<lambda>b. Inr (a @ b)))"

text \<open>The budget breakdown; the f-strings evaluate their expressions from left to right.\<close>

definition budget_breakdown :: "int \<Rightarrow> int \<Rightarrow> exn + string" where
  "budget_breakdown budget_num days =
     bind_exn (share budget_num (2 / 5)) (\<lambda>acc.
     bind_exn (daily_rate budget_num (2 / 5) days) (\<lambda>acc_rate.
     bind_exn (share budget_num (3 / 10)) (\<lambda>food.
     bind_exn (daily_rate budget_num (3 / 10) days) (\<lambda>food_rate.
     bind_exn (share budget_num (1 / 5)) (\<lambda>act.
     bind_exn (share budget_num (1 / 10)) (\<lambda>trans.
       Inr (nl @ ''## '' @ money_bag @ '' Budget Breakdown ($'' @ fmt_commas budget_num @ '')'' @ nl
            @ ''- Accommodation: $'' @ fmt_commas acc @ '' ($'' @ fmt_commas acc_rate
            @ ''/night)'' @ nl
            @ ''- Food: $'' @ fmt_commas food @ '' ($'' @ fmt_commas food_rate @ ''/day)'' @ nl
            @ ''- Activities: $'' @ fmt_commas act @ nl
            @ ''- Transportation: $'' @ fmt_commas trans @ nl)))))))"

definition transport_tips :: "(string \<times> string) list option \<Rightarrow> string" where
  "transport_tips t =
     (case t of
        None \<Rightarrow> []
      | Some tips \<Rightarrow>
          nl @ ''## '' @ bus @ '' Transportation Tips'' @ nl
          @ concat (map (\<lambda>(mode, tip). ''- **'' @ title mode @ ''**: '' @ tip @ nl) tips))"

text \<open>
  The body of the \<open>try\<close> of \<open>generate_detailed_itinerary\<close>.  \<open>used_web_search\<close> is the flag
  of the session when the generation starts.
\<close>

definition compose :: "env \<Rightarrow> bool \<Rightarrow> profile \<Rightarrow> exn + string" where
  "compose env used_web user_info =
     (let destination = get_field_default user_info ''destination'' ''your destination'';
          days = extract_days (get_field_default user_info ''duration'' ''5 days'');
          budget_num = extract_budget (get_field_default user_info ''budget'' ''$2000'')
      in
      bind_exn (get_destination_info env destination user_info) (\<lambda>info.
      bind_exn (filter_by_preferences (activities info) user_info) (\<lambda>acts.
      bind_exn (filter_by_preferences (dining info) user_info) (\<lambda>dins.
      bind_exn (filter_by_preferences (accommodation info) user_info) (\<lambda>accs.
      (case destination of
         None \<Rightarrow> Inl (no_attribute ''NoneType'' ''title'')
       | Some d \<Rightarrow>
      bind_exn (render_section (nl @ ''## '' @ masks @ '' Recommended Activities'' @ nl) 8 acts)
        (\<lambda>acts_text.
      bind_exn (render_section (nl @ ''## '' @ plate @ '' Dining Recommendations'' @ nl) 5 dins)
        (\<lambda>dins_text.
      bind_exn (render_section (nl @ ''## '' @ hotel @ '' Accommodation Options'' @ nl) 3 accs)
        (\<lambda>accs_text.
      bind_exn (schedule env d acts dins [1 ..< Suc (nat days)]) (\<lambda>days_text.
      bind_exn (budget_breakdown budget_num days) (\<lambda>budget_text.
        Inr (''# '' @ airplane @ '' '' @ title d @ '' '' @ str_of_int days @ ''-Day Itinerary''
             @ nl @ nl
             @ ''_'' @ description info @ ''_'' @ nl @ nl
             @ ''## '' @ memo @ '' Trip Overview'' @ nl
             @ ''- **Traveler**: '' @ opt_str (get_field_default user_info ''purpose'' ''Leisure'')
             @ '' trip'' @ nl
             @ ''- **Interests**: ''
             @ opt_str (get_field_default user_info ''interests'' ''General sightseeing'') @ nl
             @ (if truthy (get_field user_info ''dietary_restrictions'')
                then ''- **Dietary**: '' @ opt_str (get_field user_info ''dietary_restrictions'')
                     @ nl
                else [])
             @ (if truthy (get_field user_info ''mobility_concerns'')
                then ''- **Mobility**: '' @ opt_str (get_field user_info ''mobility_concerns'') @ nl
                else [])
             @ ''- **Accommodation**: ''
             @ opt_str (get_field_default user_info ''accommodation_preference'' ''Standard'')
             @ nl @ nl
             @ ''## '' @ glowing_star @ '' Top Rated Attractions'' @ nl
             @ numbered 1 (take 10 (must_see info))
             @ acts_text @ dins_text @ accs_text
             @ nl @ ''## '' @ calendar @ '' Sample '' @ str_of_int days @ ''-Day Schedule'' @ nl
             @ days_text
             @ budget_text
             @ transport_tips (transport info)
             @ (if used_web \<or> web_search_used env d user_info
                then nl @ ''*Note: Some recommendations were sourced from recent web searches.*''
                else [])))))))))))))"

text \<open>\<open>generate_detailed_itinerary(user_info)\<close>: the body, and the handler of whatever it
  raises.\<close>

definition generate_detailed_itinerary :: "env \<Rightarrow> bool \<Rightarrow> profile \<Rightarrow> string" where
  "generate_detailed_itinerary env used_web user_info =
     (case compose env used_web user_info of
        Inr itinerary \<Rightarrow> itinerary
      | Inl e \<Rightarrow> warning_sign @ '' Error generating itinerary: '' @ exn_str e)"


section \<open>The turn handler\<close>

text \<open>The session state of the program: the profile, the conversation (role and content
  of each message), and the two fields that \<open>reset_conversation\<close> also sets.\<close>

record session =
  user_info :: profile
  conversation :: "(string \<times> string) list"
  current_question :: string
  used_web_search :: bool

definition core_fields :: "string list" where
  "core_fields = [''destination'', ''duration'', ''budget'', ''purpose'', ''interests'']"

definition question_map :: "(string \<times> string) list" where
  "question_map =
     [(''get_destination'', ''Where would you like to go?''),
      (''get_duration'', ''How many days will your trip be?''),
      (''get_budget'', ''What'' @ apostrophe @ ''s your approximate budget for this trip?''),
      (''get_purpose'', ''Is this trip for leisure, business, or a special occasion?''),
      (''get_interests'', ''What are your main interests? (e.g., art, food, adventure)''),
      (''get_dietary_restrictions'', ''Any dietary restrictions we should consider?''),
      (''get_mobility_concerns'', ''Any mobility concerns we should account for?''),
      (''get_accommodation_preference'', ''What type of accommodation do you prefer?''),
      (''confirm_generate'', ''Would you like me to generate your itinerary now?'')]"

definition question_for :: "string \<Rightarrow> string" where
  "question_for next_q =
     (case map_of question_map next_q of
        Some q \<Rightarrow> q
      | None \<Rightarrow> ''How can I help you with your travel plans?'')"

text \<open>\<open>user_info.update(extracted_info)\<close>: every extracted value is a string.\<close>

definition merge_info :: "(string \<times> string) list \<Rightarrow> profile \<Rightarrow> profile" where
  "merge_info extracted profile = fold (\<lambda>(k, v). AList.update k (Some v)) extracted profile"

text \<open>The default of the dietary slot, applied before the next question is looked up.\<close>

definition dietary_default :: "profile \<Rightarrow> profile" where
  "dietary_default profile =
     (if \<not> truthy (get_field profile ''dietary_restrictions'')
         \<and> \<not> str_in ''food''
               (lower (case get_field_default profile ''interests'' [] of
                         None \<Rightarrow> [] | Some i \<Rightarrow> i))
      then AList.update ''dietary_restrictions'' (Some ''None'') profile
      else profile)"

definition clarification :: "string \<Rightarrow> string \<Rightarrow> string option" where
  "clarification next_q prompt =
     (if next_q \<in> set [''get_budget'', ''get_duration'', ''get_interests'', ''get_accommodation'']
      then refine_vague_input prompt (replace ''get_'' [] next_q)
      else None)"

text \<open>The turn for a prompt that is a string and not empty.\<close>

definition handle_text :: "env \<Rightarrow> string \<Rightarrow> session \<Rightarrow> string \<times> session" where
  "handle_text env prompt st =
     (let extracted_info = extract_travel_info (set_order env) prompt;
          merged = merge_info extracted_info (user_info st);
          st1 = st\<lparr>user_info := merged, conversation := conversation st @ [(''user'', prompt)]\<rparr>
      in
      if list_all (\<lambda>field. truthy (get_field merged field)) core_fields
      then
        if str_in ''yes'' (lower prompt) \<or> str_in ''generate'' (lower prompt)
        then let itinerary = generate_detailed_itinerary env (used_web_search st) merged
             in (itinerary,
                 st1\<lparr>user_info := AList.update ''itinerary'' (Some itinerary) merged,
                     used_web_search :=
                       (used_web_search st
                        \<or> (case get_field merged ''destination'' of
                              None \<Rightarrow> False
                            | Some d \<Rightarrow> web_search_used env d merged))\<rparr>)
        else (''I have enough information to generate your itinerary. ''
                @ ''Would you like me to create it now?'', st1)
      else
        let profile = dietary_default merged;
            st2 = st1\<lparr>user_info := profile\<rparr>;
            next_q = get_next_question profile
        in (case clarification next_q prompt of
              Some c \<Rightarrow> (c, st2)
            | None \<Rightarrow> (question_for next_q, st2)))"

text \<open>\<open>handle_user_response(prompt)\<close>: the reply and the session after the turn.\<close>

definition handle_user_response :: "env \<Rightarrow> pyval \<Rightarrow> session \<Rightarrow> string \<times> session" where
  "handle_user_response env prompt st =
     (case prompt of
        PyStr p \<Rightarrow>
          if p = [] then (''Please provide a valid travel request'', st)
          else handle_text env p st
      | _ \<Rightarrow> (''Please provide a valid travel request'', st))"


text \<open>\<open>reset_conversation()\<close>: the session a conversation starts from.\<close>

definition initial_profile :: profile where
  "initial_profile =
     [(''destination'', None), (''duration'', None), (''budget'', None), (''purpose'', None),
      (''interests'', None), (''dietary_restrictions'', None), (''mobility_concerns'', None),
      (''accommodation_preference'', None), (''itinerary'', None)]"

definition reset_conversation :: session where
  "reset_conversation =
     \<lparr>user_info = initial_profile,
      conversation =
        [(''assistant'',
          [CHR 0xF0, CHR 0x9F, CHR 0x8C, CHR 0x8D]
            @ '' Welcome to your AI Travel Planner! Where would you like to go?'')],
      current_question = ''get_destination'',
      used_web_search = False\<rparr>"

section \<open>Readings of the specification and sample data\<close>

text \<open>
  The next prompt as the specification words it, to be compared with
  \<open>get_next_question\<close>: the first slot of the canonical order whose value is null, and
  the confirmation when no slot is null.
\<close>

definition nextPrompt_spec :: "profile \<Rightarrow> string" where
  "nextPrompt_spec profile =
     (case find (\<lambda>field. get_field profile field = None) required_fields of
        Some field \<Rightarrow> ''get_'' @ field
      | None \<Rightarrow> ''confirm_generate'')"



text \<open>An environment in which no provider has anything to offer, and one place.\<close>

definition quiet_env :: env where
  "quiet_env =
     \<lparr>set_order = remdups,
      destination_info =
        (\<lambda>d u. \<lparr>description = ''A wonderful travel destination with many attractions'',
                 must_see = [], activities = [], dining = [], accommodation = [],
                 transport = None\<rparr>),
      web_search_used = (\<lambda>d u. False),
      date_str = (\<lambda>n. ''Monday, January 01''),
      weather_forecast = (\<lambda>d n. None),
      pick = (\<lambda>day slot n. 0)\<rparr>"

definition place :: "string \<Rightarrow> string \<Rightarrow> item" where
  "place n t = [(''name'', PyStr n), (''type'', PyStr t)]"

definition six_places :: "item list" where
  "six_places = [place ''Louvre'' ''art'', place ''Orsay'' ''art'', place ''Catacombs'' ''history'',
     place ''Le Comptoir'' ''restaurants'', place ''Septime'' ''restaurants'',
     place ''Generator'' ''hostel'']"

text \<open>Two sessions of a conversation under way: one that has the destination and the
  duration, and one in which only the accommodation preference is still to come.\<close>

definition paris_session :: session where
  "paris_session =
     \<lparr>user_info =
        [(''destination'', Some ''Paris''), (''duration'', Some ''3 days''), (''budget'', None),
         (''purpose'', None), (''interests'', None), (''dietary_restrictions'', None),
         (''mobility_concerns'', None), (''accommodation_preference'', None),
         (''itinerary'', None)],
      conversation = [(''user'', ''paris''), (''user'', ''3 days'')],
      current_question = ''get_destination'',
      used_web_search = False\<rparr>"

definition lodging_pending_session :: session where
  "lodging_pending_session =
     \<lparr>user_info =
        [(''destination'', Some ''Paris''), (''duration'', Some ''3 days''),
         (''budget'', Some ''1000''), (''purpose'', Some ''Leisure''),
         (''interests'', Some ''Art''), (''dietary_restrictions'', Some ''None''),
         (''mobility_concerns'', Some ''Limited mobility''),
         (''accommodation_preference'', None), (''itinerary'', None)],
      conversation = [],
      current_question = ''get_destination'',
      used_web_search = False\<rparr>"


section \<open>The number of days\<close>




lemma digits_match_none:
  "rest = [] \<or> \<not> is_digit (hd rest) \<Longrightarrow> rx_match n (RGrp i (RPlus (RCls Digit))) (b, rest, []) = []"
  by (cases rest) (auto simp: RPlus_def)













section \<open>The next question\<close>

lemma next_question_from_unfilled:
  "i < length fs \<Longrightarrow> \<forall>j<i. truthy (get_field p (fs ! j)) \<Longrightarrow> \<not> truthy (get_field p (fs ! i))
     \<Longrightarrow> next_question_from p fs = ''get_'' @ fs ! i"
proof (induction fs arbitrary: i)
  case Nil
  then show ?case by simp
next
  case (Cons f fs)
  show ?case
  proof (cases i)
    case 0
    with Cons.prems show ?thesis by simp
  next
    case (Suc k)
    with Cons.prems have "truthy (get_field p f)" by auto
    moreover have "next_question_from p fs = ''get_'' @ fs ! k"
      using Cons.prems Suc by (intro Cons.IH) auto
    ultimately show ?thesis using Suc by simp
  qed
qed

lemma next_question_from_filled:
  "\<forall>f\<in>set fs. truthy (get_field p f) \<Longrightarrow> next_question_from p fs = ''confirm_generate''"
  by (induction fs) auto

text \<open>
  Claim C3, amended.  \<open>get_next_question\<close> returns the identifier of the first slot, in the
  canonical order destination, duration, budget, purpose, interests, dietary restrictions,
  mobility concerns, accommodation preference, whose value is unfilled, that is \<open>None\<close> or
  the empty string; when all eight slots hold a string that is not empty it returns the
  identifier of the confirmation.
\<close>

theorem get_next_question_first_unfilled:
  "required_fields = [''destination'', ''duration'', ''budget'', ''purpose'', ''interests'',
      ''dietary_restrictions'', ''mobility_concerns'', ''accommodation_preference'']
   \<and> (\<forall>i<length required_fields.
         (\<forall>j<i. truthy (get_field p (required_fields ! j)))
         \<and> \<not> truthy (get_field p (required_fields ! i))
         \<longrightarrow> get_next_question p = ''get_'' @ required_fields ! i)
   \<and> ((\<forall>f\<in>set required_fields. truthy (get_field p f))
        \<longrightarrow> get_next_question p = ''confirm_generate'')
   \<and> (\<forall>v. truthy v = (v \<noteq> None \<and> v \<noteq> Some []))"
proof -
  have t: "\<forall>v. truthy v = (v \<noteq> None \<and> v \<noteq> Some [])"
    by (auto simp: truthy_def split: option.splits)
  have r: "required_fields = [''destination'', ''duration'', ''budget'', ''purpose'', ''interests'',
      ''dietary_restrictions'', ''mobility_concerns'', ''accommodation_preference'']"
    by (fact required_fields_def)
  have u: "\<forall>i<length required_fields.
         (\<forall>j<i. truthy (get_field p (required_fields ! j)))
         \<and> \<not> truthy (get_field p (required_fields ! i))
         \<longrightarrow> get_next_question p = ''get_'' @ required_fields ! i"
    unfolding get_next_question_def using next_question_from_unfilled by blast
  have f: "(\<forall>f\<in>set required_fields. truthy (get_field p f))
        \<longrightarrow> get_next_question p = ''confirm_generate''"
    unfolding get_next_question_def using next_question_from_filled by blast
  from r u f t show ?thesis by (intro conjI)
qed

theorem get_next_question_first_unfilled_witness:
  "get_next_question
     [(''destination'', Some ''Paris''), (''duration'', None), (''budget'', Some ''1000'')]
     = ''get_duration''
   \<and> get_next_question
     [(''destination'', Some ''Paris''), (''duration'', Some ''3 days''),
      (''budget'', Some ''1000''), (''purpose'', Some ''Leisure''), (''interests'', Some ''Art''),
      (''dietary_restrictions'', Some ''None''), (''mobility_concerns'', Some ''None''),
      (''accommodation_preference'', Some ''Hostel'')]
     = ''confirm_generate''"
proof -
  let ?p = "[(''destination'', Some ''Paris''), (''duration'', None), (''budget'', Some ''1000'')]"
  let ?q = "[(''destination'', Some ''Paris''), (''duration'', Some ''3 days''),
      (''budget'', Some ''1000''), (''purpose'', Some ''Leisure''), (''interests'', Some ''Art''),
      (''dietary_restrictions'', Some ''None''), (''mobility_concerns'', Some ''None''),
      (''accommodation_preference'', Some ''Hostel'')]"
  have a: "(1::nat) < length required_fields"
    "\<forall>j<(1::nat). truthy (get_field ?p (required_fields ! j))"
    "\<not> truthy (get_field ?p (required_fields ! 1))"
    "''get_'' @ required_fields ! 1 = ''get_duration''"
    by (simp_all add: required_fields_def truthy_def get_field_def)
  have b: "\<forall>f\<in>set required_fields. truthy (get_field ?q f)"
    by (simp add: required_fields_def truthy_def get_field_def)
  from get_next_question_first_unfilled[of ?p]
  have "(\<forall>j<(1::nat). truthy (get_field ?p (required_fields ! j)))
         \<and> \<not> truthy (get_field ?p (required_fields ! 1))
         \<longrightarrow> get_next_question ?p = ''get_'' @ required_fields ! 1"
    using a(1) by blast
  with a(2,3,4) have "get_next_question ?p = ''get_duration''" by simp
  moreover from get_next_question_first_unfilled[of ?q] b
  have "get_next_question ?q = ''confirm_generate''" by blast
  ultimately show ?thesis by blast
qed

text \<open>
  Claim C3 as it is worded fails on a profile whose destination is the empty string (the
  extractor stores it for a destination without a letter, as in \<open>visit 123\<close>): no slot
  before the duration is null, yet the destination is asked again.
\<close>

theorem next_prompt_null_counterexample:
  "get_field 
     [(''destination'', Some []), (''duration'', None), (''budget'', None), (''purpose'', None),
      (''interests'', None), (''dietary_restrictions'', None), (''mobility_concerns'', None),
      (''accommodation_preference'', None), (''itinerary'', None)]
     ''destination'' \<noteq> None
   \<and> get_field 
     [(''destination'', Some []), (''duration'', None), (''budget'', None), (''purpose'', None),
      (''interests'', None), (''dietary_restrictions'', None), (''mobility_concerns'', None),
      (''accommodation_preference'', None), (''itinerary'', None)]
     ''duration'' = None
   \<and> nextPrompt_spec 
     [(''destination'', Some []), (''duration'', None), (''budget'', None), (''purpose'', None),
      (''interests'', None), (''dietary_restrictions'', None), (''mobility_concerns'', None),
      (''accommodation_preference'', None), (''itinerary'', None)]
     = ''get_duration''
   \<and> get_next_question 
     [(''destination'', Some []), (''duration'', None), (''budget'', None), (''purpose'', None),
      (''interests'', None), (''dietary_restrictions'', None), (''mobility_concerns'', None),
      (''accommodation_preference'', None), (''itinerary'', None)]
     = ''get_destination''"
  by (simp add: get_field_def nextPrompt_spec_def required_fields_def
      get_next_question_def truthy_def)

lemma empty_destination_reached:
  "user_info (snd (handle_user_response quiet_env (PyStr ''visit 123'') reset_conversation))
     = [(''destination'', Some []), (''duration'', None), (''budget'', None), (''purpose'', None),
        (''interests'', None), (''dietary_restrictions'', Some ''None''),
        (''mobility_concerns'', None), (''accommodation_preference'', None),
        (''itinerary'', None)]"
  by code_simp

section \<open>Invalid prompts\<close>

text \<open>
  Claim C10.  For a prompt that is the empty string or not a string, the turn handler
  answers with the fixed request for a valid prompt and returns the session as it was:
  the profile, the conversation and the flags are unchanged, nothing is extracted or
  merged and no default is applied.
\<close>

theorem handle_invalid_prompt:
  "prompt = PyStr [] \<or> (\<forall>s. prompt \<noteq> PyStr s)
     \<Longrightarrow> handle_user_response env prompt st = (''Please provide a valid travel request'', st)"
  by (cases prompt) (auto simp: handle_user_response_def)

theorem handle_invalid_prompt_witness:
  "handle_user_response quiet_env (PyStr []) reset_conversation
     = (''Please provide a valid travel request'', reset_conversation)
   \<and> handle_user_response quiet_env PyNone reset_conversation
     = (''Please provide a valid travel request'', reset_conversation)
   \<and> handle_user_response quiet_env (PyInt 7) reset_conversation
     = (''Please provide a valid travel request'', reset_conversation)"
  using handle_invalid_prompt[of "PyStr []" quiet_env reset_conversation]
    handle_invalid_prompt[of PyNone quiet_env reset_conversation]
    handle_invalid_prompt[of "PyInt 7" quiet_env reset_conversation]
  by simp



section \<open>The preference filter keeps something\<close>

lemma filter_loop_filter:
  "filter_loop i p items = Inr r \<Longrightarrow> r = filter (\<lambda>it. keeps i p it = Inr True) items"
proof (induction items arbitrary: r)
  case Nil
  then show ?case by simp
next
  case (Cons it items)
  then show ?case
    by (auto split: sum.splits if_splits)
qed

lemma filter_loop_keeps_nothing:
  "\<forall>it\<in>set items. keeps i p it = Inr False \<Longrightarrow> filter_loop i p items = Inr []"
  by (induction items) auto










lemma keeps_no_preferences:
  assumes "\<not> truthy (get_field prefs ''dietary_restrictions'')"
    "\<not> truthy (get_field prefs ''accommodation_preference'')"
  shows "keeps [] prefs it = Inr False"
  using assms
  by (auto simp: keeps_def interest_keeps_def dietary_keeps_def accommodation_keeps_def truthy_def
      split: option.splits)

text \<open>
  Claim C6, amended.  With a profile in which neither interests nor dietary restrictions
  nor an accommodation preference are set, no item passes a test and the filter returns
  the first five items: the input comes back unchanged exactly when it has at most five
  items (or when the profile is the empty dictionary, which is returned from at once).
\<close>

theorem filter_no_preferences:
  "\<not> truthy (get_field prefs ''interests'')
   \<and> \<not> truthy (get_field prefs ''dietary_restrictions'')
   \<and> \<not> truthy (get_field prefs ''accommodation_preference'')
   \<longrightarrow> filter_by_preferences items prefs = Inr (if prefs = [] then items else take 5 items)
       \<and> ((filter_by_preferences items prefs = Inr items) = (prefs = [] \<or> length items \<le> 5))"
proof (intro impI, elim conjE)
  assume h: "\<not> truthy (get_field prefs ''interests'')"
    "\<not> truthy (get_field prefs ''dietary_restrictions'')"
    "\<not> truthy (get_field prefs ''accommodation_preference'')"
  from h(1) have i: "interests_of prefs = []"
    by (auto simp: interests_of_def truthy_def split: option.splits)
  have "filter_loop [] prefs items = Inr []"
    using keeps_no_preferences[OF h(2,3)] by (simp add: filter_loop_keeps_nothing)
  with i have r: "filter_by_preferences items prefs = Inr (if prefs = [] then items else take 5 items)"
    by (simp add: filter_by_preferences_def)
  have "(take 5 items = items) = (length items \<le> 5)"
    by (metis take_all_iff)
  with r show "filter_by_preferences items prefs = Inr (if prefs = [] then items else take 5 items)
       \<and> ((filter_by_preferences items prefs = Inr items) = (prefs = [] \<or> length items \<le> 5))"
    by auto
qed

theorem filter_no_preferences_witness:
  "filter_by_preferences (take 2 six_places) initial_profile = Inr (take 2 six_places)
   \<and> filter_by_preferences six_places initial_profile = Inr (take 5 six_places)"
proof -
  have h: "\<not> truthy (get_field initial_profile ''interests'')"
    "\<not> truthy (get_field initial_profile ''dietary_restrictions'')"
    "\<not> truthy (get_field initial_profile ''accommodation_preference'')"
    "initial_profile \<noteq> []" "length (take 2 six_places) \<le> 5"
    by code_simp+
  from filter_no_preferences[of initial_profile "take 2 six_places"] h
  have "filter_by_preferences (take 2 six_places) initial_profile = Inr (take 2 six_places)"
    by blast
  moreover from filter_no_preferences[of initial_profile six_places] h
  have "filter_by_preferences six_places initial_profile = Inr (take 5 six_places)"
    by simp
  ultimately show ?thesis by blast
qed

text \<open>
  Claim C6 as it is worded fails: the profile a conversation starts from has no interests,
  and six items come back as five; and with no interests but an accommodation preference
  only the items of that category are kept.
\<close>

theorem filter_no_interests_counterexample:
  "get_field initial_profile ''interests'' = None
   \<and> filter_by_preferences six_places initial_profile = Inr (take 5 six_places)
   \<and> take 5 six_places \<noteq> six_places
   \<and> get_field [(''interests'', None), (''accommodation_preference'', Some ''Hostel'')]
        ''interests'' = None
   \<and> filter_by_preferences [place ''Generator'' ''hostel'', place ''Ritz'' ''hotel'']
        [(''interests'', None), (''accommodation_preference'', Some ''Hostel'')]
      = Inr [place ''Generator'' ''hostel'']"
  by code_simp



section \<open>Turns that look for the next slot\<close>

lemma get_field_update:
  "get_field (AList.update k v p) k' = (if k' = k then v else get_field p k')"
  by (simp add: get_field_def update_conv')

lemma get_field_dietary_default:
  "k \<noteq> ''dietary_restrictions'' \<Longrightarrow> get_field (dietary_default p) k = get_field p k"
  by (simp add: dietary_default_def get_field_update)

lemma next_question_from_cases:
  "next_question_from p fs = ''confirm_generate'' \<and> (\<forall>f\<in>set fs. truthy (get_field p f))
   \<or> (\<exists>f\<in>set fs. next_question_from p fs = ''get_'' @ f \<and> \<not> truthy (get_field p f))"
  by (induction fs) auto

lemma next_question_from_prefix:
  "\<exists>f\<in>set fs. \<not> truthy (get_field p f)
     \<Longrightarrow> next_question_from p (fs @ gs) = next_question_from p fs"
  by (induction fs) auto

lemma required_fields_split:
  "required_fields
     = core_fields @ [''dietary_restrictions'', ''mobility_concerns'', ''accommodation_preference'']"
  by (simp add: required_fields_def core_fields_def)

lemma scan_asks_core:
  assumes "\<not> list_all (\<lambda>f. truthy (get_field p f)) core_fields"
  shows "\<exists>f\<in>set core_fields. get_next_question p = ''get_'' @ f \<and> \<not> truthy (get_field p f)"
proof -
  from assms have ex: "\<exists>f\<in>set core_fields. \<not> truthy (get_field p f)"
    by (simp add: list_all_iff)
  then have "get_next_question p = next_question_from p core_fields"
    unfolding get_next_question_def required_fields_split by (rule next_question_from_prefix)
  with next_question_from_cases[of p core_fields] ex show ?thesis by auto
qed

lemma core_unfilled_dietary_default:
  "list_all (\<lambda>f. truthy (get_field (dietary_default p) f)) core_fields
     = list_all (\<lambda>f. truthy (get_field p f)) core_fields"
  by (simp add: core_fields_def get_field_dietary_default)

lemma handle_text_scan:
  assumes "merged = merge_info (extract_travel_info (set_order env) p) (user_info st)"
    "\<not> list_all (\<lambda>f. truthy (get_field merged f)) core_fields"
  shows "handle_text env p st =
     ((case clarification (get_next_question (dietary_default merged)) p of
         Some c \<Rightarrow> c
       | None \<Rightarrow> question_for (get_next_question (dietary_default merged))),
      st\<lparr>user_info := dietary_default merged, conversation := conversation st @ [(''user'', p)]\<rparr>)"
  using assms by (simp add: handle_text_def Let_def split: option.splits)

lemma interests_text:
  "(case get_field_default p k [] of None \<Rightarrow> [] | Some i \<Rightarrow> i)
     = (case get_field p k of None \<Rightarrow> [] | Some i \<Rightarrow> i)"
  by (simp add: get_field_default_def get_field_def split: option.splits)

lemma dietary_default_sets:
  "\<not> truthy (get_field p ''dietary_restrictions'')
   \<Longrightarrow> \<not> str_in ''food'' (lower (case get_field p ''interests'' of None \<Rightarrow> [] | Some i \<Rightarrow> i))
   \<Longrightarrow> get_field (dietary_default p) ''dietary_restrictions'' = Some ''None''"
  by (simp add: dietary_default_def interests_text get_field_update)

lemma refine_not_dietary_question:
  "refine_vague_input p f = Some c \<Longrightarrow> c \<noteq> ''Any dietary restrictions we should consider?''"
  by (auto simp: refine_vague_input_def refine_budget_def refine_duration_def
      refine_interests_def refine_accommodation_def Let_def split: if_splits)

lemma question_for_core:
  "f \<in> set core_fields
     \<Longrightarrow> question_for (''get_'' @ f) \<noteq> ''Any dietary restrictions we should consider?''"
  by (auto simp: core_fields_def question_for_def question_map_def)


text \<open>
  Claim C4.  In every turn that comes to the scan for the next slot (the prompt is a string
  that is not empty and, once the extracted fields are merged, the five core slots are
  not all filled), the scan runs on the merged profile with the dietary default applied:
  when the dietary slot is still unfilled and the interests, in lower case, do not contain
  \<open>food\<close>, the slot holds the string \<open>None\<close> before the scan.  The scan never asks for the
  dietary slot in such a turn, and the reply is never the dietary question.
\<close>

theorem dietary_default_before_scan:
  "p \<noteq> [] \<and> merged = merge_info (extract_travel_info (set_order env) p) (user_info st)
   \<and> \<not> list_all (\<lambda>f. truthy (get_field merged f)) core_fields
   \<longrightarrow>
     user_info (snd (handle_user_response env (PyStr p) st)) = dietary_default merged
   \<and> fst (handle_user_response env (PyStr p) st)
        = (case clarification (get_next_question (dietary_default merged)) p of
             Some c \<Rightarrow> c
           | None \<Rightarrow> question_for (get_next_question (dietary_default merged)))
   \<and> (\<not> truthy (get_field merged ''dietary_restrictions'')
        \<and> \<not> str_in ''food''
              (lower (case get_field merged ''interests'' of None \<Rightarrow> [] | Some i \<Rightarrow> i))
        \<longrightarrow> get_field (dietary_default merged) ''dietary_restrictions'' = Some ''None'')
   \<and> get_next_question (dietary_default merged) \<noteq> ''get_dietary_restrictions''
   \<and> fst (handle_user_response env (PyStr p) st)
        \<noteq> ''Any dietary restrictions we should consider?''"
proof (intro impI, elim conjE)
  assume p: "p \<noteq> []"
    and m: "merged = merge_info (extract_travel_info (set_order env) p) (user_info st)"
    and c: "\<not> list_all (\<lambda>f. truthy (get_field merged f)) core_fields"
  let ?d = "dietary_default merged"
  have h: "handle_user_response env (PyStr p) st = handle_text env p st"
    using p by (simp add: handle_user_response_def)
  note t = handle_text_scan[OF m c]
  from c have "\<not> list_all (\<lambda>f. truthy (get_field ?d f)) core_fields"
    by (simp add: core_unfilled_dietary_default)
  from scan_asks_core[OF this] obtain f where
    f: "f \<in> set core_fields" "get_next_question ?d = ''get_'' @ f" by blast
  from f have nq: "get_next_question ?d \<noteq> ''get_dietary_restrictions''"
    by (auto simp: core_fields_def)
  have r: "fst (handle_user_response env (PyStr p) st)
        = (case clarification (get_next_question ?d) p of
             Some c \<Rightarrow> c | None \<Rightarrow> question_for (get_next_question ?d))"
    by (simp add: h t)
  have "fst (handle_user_response env (PyStr p) st)
        \<noteq> ''Any dietary restrictions we should consider?''"
  proof (cases "clarification (get_next_question ?d) p")
    case None
    with r f question_for_core[OF f(1)] show ?thesis by simp
  next
    case (Some q)
    then have "q \<noteq> ''Any dietary restrictions we should consider?''"
      by (auto simp: clarification_def dest: refine_not_dietary_question split: if_splits)
    with r Some show ?thesis by simp
  qed
  moreover have "user_info (snd (handle_user_response env (PyStr p) st)) = ?d"
    by (simp add: h t)
  moreover have "\<not> truthy (get_field merged ''dietary_restrictions'')
        \<and> \<not> str_in ''food''
              (lower (case get_field merged ''interests'' of None \<Rightarrow> [] | Some i \<Rightarrow> i))
        \<longrightarrow> get_field ?d ''dietary_restrictions'' = Some ''None''"
    using dietary_default_sets by blast
  ultimately show "user_info (snd (handle_user_response env (PyStr p) st)) = ?d
   \<and> fst (handle_user_response env (PyStr p) st)
        = (case clarification (get_next_question ?d) p of
             Some c \<Rightarrow> c | None \<Rightarrow> question_for (get_next_question ?d))
   \<and> (\<not> truthy (get_field merged ''dietary_restrictions'')
        \<and> \<not> str_in ''food''
              (lower (case get_field merged ''interests'' of None \<Rightarrow> [] | Some i \<Rightarrow> i))
        \<longrightarrow> get_field ?d ''dietary_restrictions'' = Some ''None'')
   \<and> get_next_question ?d \<noteq> ''get_dietary_restrictions''
   \<and> fst (handle_user_response env (PyStr p) st)
        \<noteq> ''Any dietary restrictions we should consider?''"
    using r nq by (intro conjI)
qed

lemma next_question_unfilled:
  assumes "get_next_question p = ''get_'' @ f"
  shows "\<not> truthy (get_field p f)"
proof -
  from next_question_from_cases[of p required_fields] assms
  obtain g where "''get_'' @ f = ''get_'' @ g" "\<not> truthy (get_field p g)"
    by (auto simp: get_next_question_def)
  then show ?thesis by simp
qed

lemma replace_get:
  "replace ''get_'' [] ''get_budget'' = ''budget''"
  "replace ''get_'' [] ''get_duration'' = ''duration''"
  "replace ''get_'' [] ''get_interests'' = ''interests''"
  by code_simp+

text \<open>
  Claim C7, amended.  In a turn that comes to the scan, when the slot the scan finds
  (after the merge of the extracted fields and the dietary default) is the budget, the
  duration or the interests and the prompt matches the table of vague answers for that
  slot, the reply is the clarifying question and the slot is still unfilled in the profile
  after the turn.
\<close>

theorem vague_answer_clarified:
  "p \<noteq> [] \<and> merged = merge_info (extract_travel_info (set_order env) p) (user_info st)
   \<and> \<not> list_all (\<lambda>f. truthy (get_field merged f)) core_fields
   \<and> field \<in> {''budget'', ''duration'', ''interests''}
   \<and> get_next_question (dietary_default merged) = ''get_'' @ field
   \<and> refine_vague_input p field = Some c
   \<longrightarrow> fst (handle_user_response env (PyStr p) st) = c
     \<and> \<not> truthy (get_field (user_info (snd (handle_user_response env (PyStr p) st))) field)"
proof (intro impI, elim conjE)
  assume p: "p \<noteq> []"
    and m: "merged = merge_info (extract_travel_info (set_order env) p) (user_info st)"
    and c: "\<not> list_all (\<lambda>f. truthy (get_field merged f)) core_fields"
    and f: "field \<in> {''budget'', ''duration'', ''interests''}"
    and n: "get_next_question (dietary_default merged) = ''get_'' @ field"
    and r: "refine_vague_input p field = Some c"
  have h: "handle_user_response env (PyStr p) st = handle_text env p st"
    using p by (simp add: handle_user_response_def)
  note t = handle_text_scan[OF m c]
  from f r have "clarification (''get_'' @ field) p = Some c"
    by (auto simp: clarification_def replace_get)
  with n have "fst (handle_user_response env (PyStr p) st) = c"
    by (simp add: h t)
  moreover from next_question_unfilled[OF n]
  have "\<not> truthy (get_field (user_info (snd (handle_user_response env (PyStr p) st))) field)"
    by (simp add: h t)
  ultimately show "fst (handle_user_response env (PyStr p) st) = c
     \<and> \<not> truthy (get_field (user_info (snd (handle_user_response env (PyStr p) st))) field)"
    by (intro conjI)
qed

lemma accommodation_never_clarified:
  "clarification ''get_accommodation_preference'' p = None"
  by (simp add: clarification_def)


lemma merged_moderate:
  "merge_info (extract_travel_info (set_order quiet_env) ''Moderate'') (user_info paris_session)
     = user_info paris_session"
  by code_simp

theorem dietary_default_before_scan_witness:
  "user_info (snd (handle_user_response quiet_env (PyStr ''Moderate'') paris_session))
     = [(''destination'', Some ''Paris''), (''duration'', Some ''3 days''), (''budget'', None),
        (''purpose'', None), (''interests'', None), (''dietary_restrictions'', Some ''None''),
        (''mobility_concerns'', None), (''accommodation_preference'', None),
        (''itinerary'', None)]
   \<and> fst (handle_user_response quiet_env (PyStr ''Moderate'') paris_session)
        \<noteq> ''Any dietary restrictions we should consider?''"
proof -
  let ?m = "user_info paris_session"
  have a: "''Moderate'' \<noteq> []" by simp
  have b: "\<not> list_all (\<lambda>f. truthy (get_field ?m f)) core_fields" by code_simp
  have c: "dietary_default ?m
     = [(''destination'', Some ''Paris''), (''duration'', Some ''3 days''), (''budget'', None),
        (''purpose'', None), (''interests'', None), (''dietary_restrictions'', Some ''None''),
        (''mobility_concerns'', None), (''accommodation_preference'', None),
        (''itinerary'', None)]" by code_simp
  have "''Moderate'' \<noteq> []
        \<and> ?m = merge_info (extract_travel_info (set_order quiet_env) ''Moderate'')
                  (user_info paris_session)
        \<and> \<not> list_all (\<lambda>f. truthy (get_field ?m f)) core_fields"
    using a b merged_moderate[symmetric] by (intro conjI)
  from mp[OF dietary_default_before_scan this]
  have "user_info (snd (handle_user_response quiet_env (PyStr ''Moderate'') paris_session))
          = dietary_default ?m"
    and "fst (handle_user_response quiet_env (PyStr ''Moderate'') paris_session)
        \<noteq> ''Any dietary restrictions we should consider?''"
    by blast+
  with c show ?thesis by simp
qed

theorem vague_answer_clarified_witness:
  "fst (handle_user_response quiet_env (PyStr ''Moderate'') paris_session)
     = ''For a moderate budget, I'' @ apostrophe
         @ ''d suggest $150-$200 per day. Does this range work for you?''
   \<and> \<not> truthy (get_field
          (user_info (snd (handle_user_response quiet_env (PyStr ''Moderate'') paris_session)))
          ''budget'')"
proof -
  let ?m = "user_info paris_session"
  have a: "''Moderate'' \<noteq> []" by simp
  have b: "\<not> list_all (\<lambda>f. truthy (get_field ?m f)) core_fields" by code_simp
  have c: "get_next_question (dietary_default ?m) = ''get_'' @ ''budget''" by code_simp
  have d: "refine_vague_input ''Moderate'' ''budget''
           = Some (''For a moderate budget, I'' @ apostrophe
                     @ ''d suggest $150-$200 per day. Does this range work for you?'')"
    by code_simp
  have e: "''budget'' \<in> {''budget'', ''duration'', ''interests''}" by simp
  have "''Moderate'' \<noteq> []
        \<and> ?m = merge_info (extract_travel_info (set_order quiet_env) ''Moderate'')
                  (user_info paris_session)
        \<and> \<not> list_all (\<lambda>f. truthy (get_field ?m f)) core_fields
        \<and> ''budget'' \<in> {''budget'', ''duration'', ''interests''}
        \<and> get_next_question (dietary_default ?m) = ''get_'' @ ''budget''
        \<and> refine_vague_input ''Moderate'' ''budget''
           = Some (''For a moderate budget, I'' @ apostrophe
                     @ ''d suggest $150-$200 per day. Does this range work for you?'')"
    using a b c d e merged_moderate[symmetric] by (intro conjI)
  from mp[OF vague_answer_clarified this] show ?thesis .
qed

text \<open>
  Claim C7 as it is worded fails for the accommodation: with the accommodation preference
  the only slot to come and an answer of the vague table for it, the five core slots are
  filled, so the handler offers the generation before it looks for the next slot.  (The
  scan would name the slot \<open>get_accommodation_preference\<close>, which is not in the list of
  the clarification either.)
\<close>

theorem accommodation_clarification_counterexample:
  "get_next_question (user_info lodging_pending_session) = ''get_accommodation_preference''
   \<and> refine_vague_input ''surprise'' ''accommodation''
       = Some ''I can select a highly-rated option that fits your budget. Is that okay?''
   \<and> fst (handle_user_response quiet_env (PyStr ''surprise'') lodging_pending_session)
       = ''I have enough information to generate your itinerary. ''
           @ ''Would you like me to create it now?''"
  by code_simp

section \<open>The duration the extractor stores\<close>

text \<open>
  Claim C2 at the prompt \<open>2 weeks\<close>: the extractor stores the number in front of the unit
  followed by \<open>days\<close>, that is \<open>2 days\<close>, where the claim has the fixed \<open>7 days\<close>;
  \<open>1 month\<close> gives \<open>1 days\<close> and \<open>a week\<close>, without a number, gives no duration.  The
  helper \<open>extract_days\<close> and the table of vague answers do read \<open>2 weeks\<close> as 7 days.
\<close>

theorem extractor_duration_ignores_unit:
  "map_of (extract_travel_info remdups ''2 weeks'') ''duration'' = Some ''2 days''
   \<and> extract_duration ''1 month'' = Some ''1 days''
   \<and> extract_duration ''a week'' = None
   \<and> extract_days (Some ''2 weeks'') = 7
   \<and> refine_vague_input ''2 weeks'' ''duration''
        = Some ''Would you like me to plan for 7 days (1 week)?''"
  by code_simp



section \<open>Rounding to a double\<close>






















section \<open>The budget breakdown\<close>











section \<open>The composer never raises\<close>

text \<open>
  Claim C8.  \<open>generate_detailed_itinerary\<close> returns a string for every profile and
  environment: the document when the body of its \<open>try\<close> completes, and otherwise the
  short text made of the warning sign, \<open>Error generating itinerary:\<close> and the message of
  the exception that the body raised.
\<close>

theorem generate_never_raises:
  "(\<forall>doc. compose env used_web profile = Inr doc
        \<longrightarrow> generate_detailed_itinerary env used_web profile = doc)
   \<and> (\<forall>e. compose env used_web profile = Inl e
        \<longrightarrow> generate_detailed_itinerary env used_web profile
            = warning_sign @ '' Error generating itinerary: '' @ exn_str e)"
  by (simp add: generate_detailed_itinerary_def)







end
